theory Spec2Isabelle
  imports Complex_Main "HOL-Library.Sublist" "HOL-Library.Multiset"
begin

section \<open>The donation back end: values, requests and responses\<close>

text \<open>
  The repository holds two versions of one Express server: \<^verbatim>\<open>src/server.js\<close>, which
  also serves a front end from \<^verbatim>\<open>public/\<close>, and \<^verbatim>\<open>src/unnamed/part_000\<close>, the
  API-only version. Their route handlers are the same text but for the root route and one
  line of the schema, so the model is one set of handlers with the version as a parameter.

  The model starts where a route is entered: a request is what the handler reads of
  \<^verbatim>\<open>req\<close> (the \<^verbatim>\<open>authorization\<close> header and the parsed JSON body) together with
  what the environment supplies while the handler runs (the clock, the identifier
  generator, whether the document store answers). The middleware registered ahead of the
  routes (the cross-origin policy, the JSON body parser, the static files) belongs to
  libraries and decides only whether a request reaches its route; the specification
  leaves it out of scope, and so does the model.
\<close>

datatype variant = Server_js | Part_000

text \<open>
  A JavaScript value as \<^verbatim>\<open>bodyParser.json()\<close> or \<^verbatim>\<open>process.env\<close> can deliver
  it. A JSON number is a rational. A string is a list of 8-bit characters; a header value
  reaches the handler decoded one character per byte.
\<close>

datatype jsval =
    JUndefined
  | JNull
  | JBool bool
  | JNum rat
  | JStr string
  | JArr "jsval list"
  | JObj "(string \<times> jsval) list"

text \<open>\<^verbatim>\<open>req.body\<close>: the properties of the parsed object; a property that is absent reads
  as \<^verbatim>\<open>undefined\<close>.\<close>

type_synonym body = "string \<rightharpoonup> jsval"

definition field :: "body \<Rightarrow> string \<Rightarrow> jsval" where
  "field b k = (case b k of None \<Rightarrow> JUndefined | Some v \<Rightarrow> v)"

text \<open>
  \<^verbatim>\<open>a === b\<close>. Arrays and objects are equal only to themselves; a value parsed from a
  request is never the very object it is compared with here, so they compare unequal.
\<close>

fun strict_equals :: "jsval \<Rightarrow> jsval \<Rightarrow> bool" where
  "strict_equals JUndefined JUndefined = True"
| "strict_equals JNull JNull = True"
| "strict_equals (JBool a) (JBool b) = (a = b)"
| "strict_equals (JNum a) (JNum b) = (a = b)"
| "strict_equals (JStr a) (JStr b) = (a = b)"
| "strict_equals _ _ = False"

subsection \<open>String operations of the gate\<close>

text \<open>\<^verbatim>\<open>s.startsWith(p)\<close>.\<close>

definition startsWith :: "string \<Rightarrow> string \<Rightarrow> bool" where
  "startsWith s p = prefix p s"

text \<open>\<^verbatim>\<open>s.replace(pat, rep)\<close> with a string pattern: the first occurrence only.\<close>

fun String_replace :: "string \<Rightarrow> string \<Rightarrow> string \<Rightarrow> string" where
  "String_replace pat rep s =
     (if prefix pat s then rep @ drop (length pat) s
      else (case s of [] \<Rightarrow> [] | c # cs \<Rightarrow> c # String_replace pat rep cs))"

text \<open>
  \<^verbatim>\<open>s.trim()\<close> removes white space and line terminators from both ends. Among the
  characters a header value can hold (code points 0 to 255) these are tab, line feed,
  vertical tab, form feed, carriage return, space and no-break space.
\<close>

definition isWhiteSpace :: "char \<Rightarrow> bool" where
  "isWhiteSpace c = (of_char c \<in> {9, 10, 11, 12, 13, 32, 160 :: nat})"

definition trim :: "string \<Rightarrow> string" where
  "trim s = rev (dropWhile isWhiteSpace (rev (dropWhile isWhiteSpace s)))"

subsection \<open>Donation records and the schema\<close>

text \<open>
  The stored document with the ten paths of \<^verbatim>\<open>donationSchema\<close>. A \<^verbatim>\<open>Date\<close> is its
  time value, the milliseconds since the epoch.
\<close>

record donation =
  timestamp :: int
  firstName :: jsval
  lastName :: jsval
  email :: jsval
  address :: jsval
  country :: jsval
  amount :: jsval
  cardNumber :: jsval
  cardExpiry :: jsval
  cardCvc :: jsval

text \<open>
  What a schema path declares: its \<^verbatim>\<open>type\<close>, whether it is \<^verbatim>\<open>required\<close>, and
  whether it has the default \<^verbatim>\<open>Date.now\<close>. \<open>Literal_true\<close> is the boolean literal
  \<^verbatim>\<open>true\<close> written where a type is expected.
\<close>

datatype schema_type = Date_type | String_type | Number_type | Literal_true

record path_options =
  type_of_path :: schema_type
  required :: bool
  default_Date_now :: bool

type_synonym schema = "(string \<times> path_options) list"

definition typed :: "schema_type \<Rightarrow> path_options" where
  "typed t = \<lparr>type_of_path = t, required = True, default_Date_now = False\<rparr>"

definition donationSchema :: "variant \<Rightarrow> schema" where
  "donationSchema v =
    [(''timestamp'', \<lparr>type_of_path = Date_type, required = False, default_Date_now = True\<rparr>),
     (''firstName'', typed String_type),
     (''lastName'', typed String_type),
     (''email'', typed String_type),
     (''address'', typed String_type),
     (''country'', typed String_type),
     (''amount'', typed Number_type),
     (''cardNumber'', typed String_type),
     (''cardExpiry'', typed String_type),
     (''cardCvc'', typed (case v of Server_js \<Rightarrow> String_type | Part_000 \<Rightarrow> Literal_true))]"

subsection \<open>Configuration, state, requests, responses\<close>

text \<open>
  \<open>env_ADMIN_PASSWORD\<close> is \<^verbatim>\<open>process.env.ADMIN_PASSWORD\<close>: a string, or nothing when the
  variable is not set. \<open>cast_date\<close> is the store client's conversion of a submitted
  \<^verbatim>\<open>timestamp\<close> to a \<^verbatim>\<open>Date\<close>, \<open>None\<close> when it refuses the value; the sources do
  not contain it, so every theorem holds for each such function.
\<close>

record config =
  variant :: variant
  env_ADMIN_PASSWORD :: "string option"
  cast_date :: "jsval \<Rightarrow> int option"

definition ADMIN_PASSWORD :: "config \<Rightarrow> jsval" where
  "ADMIN_PASSWORD c = (case env_ADMIN_PASSWORD c of None \<Rightarrow> JUndefined | Some p \<Rightarrow> JStr p)"

text \<open>\<open>adminSessions\<close> is the in-memory \<^verbatim>\<open>Set\<close>; \<open>donations\<close> is the stored collection,
  in insertion order.\<close>

record state =
  adminSessions :: "string set"
  donations :: "donation list"

datatype json_body =
    Message string
  | Token string
  | Donations "donation list"
  | Status_message string string

text \<open>\<^verbatim>\<open>res.status(n).json(b)\<close> is \<open>Json n b\<close> (\<^verbatim>\<open>res.json(b)\<close> alone answers 200);
  \<^verbatim>\<open>res.sendFile(p)\<close> is \<open>SendFile p\<close>.\<close>

datatype response = Json nat json_body | SendFile string

text \<open>
  A request as its route sees it. \<open>POST_donations b now up\<close>: body \<open>b\<close>, the clock reads
  \<open>now\<close>, and \<open>up\<close> tells whether the store accepts the write. \<open>POST_admin_login b uuid\<close>:
  \<open>uuid\<close> is what \<^verbatim>\<open>uuidv4()\<close> returns if it is called. The two admin routes carry
  \<^verbatim>\<open>req.headers.authorization\<close>.
\<close>

datatype request =
    GET_root
  | POST_donations body int bool
  | POST_admin_login body string
  | POST_admin_logout "string option"
  | GET_admin_donations "string option" bool

section \<open>The admin gate and the session registry\<close>

text \<open>
  \<^verbatim>\<open>authenticateAdmin\<close>: \<open>Inl\<close> is the response it sends itself, \<open>Inr\<close> the token it
  stores in \<^verbatim>\<open>req.adminToken\<close> before calling \<^verbatim>\<open>next()\<close>. The empty string is falsy,
  so \<^verbatim>\<open>!authHeader\<close> holds for a missing and for an empty header.
\<close>

definition bearer_token :: "string \<Rightarrow> string" where
  "bearer_token authHeader = trim (String_replace ''Bearer '' '''' authHeader)"

definition authenticateAdmin :: "string option \<Rightarrow> string set \<Rightarrow> response + string" where
  "authenticateAdmin authHeader sessions =
     (case authHeader of
        None \<Rightarrow> Inl (Json 401 (Message ''Authorization token missing''))
      | Some h \<Rightarrow>
          if h = [] \<or> \<not> startsWith h ''Bearer ''
          then Inl (Json 401 (Message ''Authorization token missing''))
          else if bearer_token h \<notin> sessions
          then Inl (Json 403 (Message ''Invalid or expired token''))
          else Inr (bearer_token h))"

text \<open>A route registered as \<^verbatim>\<open>app.post(path, authenticateAdmin, handler)\<close>: the handler
  runs only when the gate calls \<^verbatim>\<open>next()\<close>.\<close>

definition gated ::
  "string option \<Rightarrow> (string \<Rightarrow> state \<Rightarrow> state \<times> response) \<Rightarrow> state \<Rightarrow> state \<times> response" where
  "gated authHeader handler s =
     (case authenticateAdmin authHeader (adminSessions s) of
        Inl r \<Rightarrow> (s, r)
      | Inr token \<Rightarrow> handler token s)"

text \<open>The three operations on the registry, as the routes perform them on the
  \<^verbatim>\<open>Set\<close>: \<^verbatim>\<open>add\<close>, \<^verbatim>\<open>has\<close> and \<^verbatim>\<open>delete\<close>.\<close>

definition issue :: "string \<Rightarrow> string set \<Rightarrow> string set" where
  "issue token sessions = insert token sessions"

definition isValid :: "string \<Rightarrow> string set \<Rightarrow> bool" where
  "isValid token sessions = (token \<in> sessions)"

definition revoke :: "string \<Rightarrow> string set \<Rightarrow> string set" where
  "revoke token sessions = sessions - {token}"

section \<open>The document store\<close>

text \<open>
  The document store client (the model's constructor, its \<^verbatim>\<open>save\<close> and its \<^verbatim>\<open>find\<close>
  with \<^verbatim>\<open>sort\<close>) is a library outside the sources; the routes only call it. Its part
  is modelled from section 4.1 of the specification, which gives its contract. A failure
  is one of three kinds; the routes treat all three alike.
\<close>

datatype store_error = ValidationError "string list" | CastError | StoreError

text \<open>The paths the schema declares \<^verbatim>\<open>required: true\<close>.\<close>

definition required_paths :: "schema \<Rightarrow> string list" where
  "required_paths sch = map fst (filter (\<lambda>p. required (snd p)) sch)"

text \<open>
  Modelled from the spec: the required-field check of the store client, which is not in
  the sources. Sections 3 and 4.1: a record is rejected if any required field is missing;
  a persisted record has all required fields non-null.
\<close>

definition missing_paths :: "schema \<Rightarrow> body \<Rightarrow> string list" where
  "missing_paths sch b =
     filter (\<lambda>p. field b p = JUndefined \<or> field b p = JNull) (required_paths sch)"

text \<open>
  Modelled from the spec: the default of \<^verbatim>\<open>timestamp\<close>, applied by the store client,
  which is not in the sources. Section 3: defaulted to submission time if absent. A
  submitted value goes through \<open>cast_date\<close>.
\<close>

definition timestamp_value :: "config \<Rightarrow> int \<Rightarrow> body \<Rightarrow> int option" where
  "timestamp_value c now b =
     (case field b ''timestamp'' of JUndefined \<Rightarrow> Some now | v \<Rightarrow> cast_date c v)"

text \<open>
  Modelled from the spec: \<^verbatim>\<open>new Donation(req.body)\<close> with the validation that
  \<^verbatim>\<open>save\<close> runs before it writes, neither of which is in the sources. Section 4.1:
  \<^verbatim>\<open>create\<close> builds a record from the submitted fields and fails with a validation error
  if a required field is missing; the other fields are kept as submitted.
\<close>

definition new_Donation :: "config \<Rightarrow> int \<Rightarrow> body \<Rightarrow> store_error + donation" where
  "new_Donation c now b =
     (if missing_paths (donationSchema (variant c)) b \<noteq> []
      then Inl (ValidationError (missing_paths (donationSchema (variant c)) b))
      else case timestamp_value c now b of
        None \<Rightarrow> Inl CastError
      | Some t \<Rightarrow>
          Inr \<lparr>timestamp = t,
               firstName = field b ''firstName'', lastName = field b ''lastName'',
               email = field b ''email'', address = field b ''address'',
               country = field b ''country'', amount = field b ''amount'',
               cardNumber = field b ''cardNumber'', cardExpiry = field b ''cardExpiry'',
               cardCvc = field b ''cardCvc''\<rparr>)"

text \<open>
  Modelled from the spec: \<^verbatim>\<open>save\<close> of a new document, which is not in the sources. It
  appends the record to the collection, or fails as a whole when the store is down.
\<close>

definition save :: "bool \<Rightarrow> donation \<Rightarrow> donation list \<Rightarrow> store_error + donation list" where
  "save up d ds = (if up then Inr (ds @ [d]) else Inl StoreError)"

text \<open>
  Modelled from the spec: \<^verbatim>\<open>Donation.find({}).sort({ timestamp: -1 })\<close>, which is not in
  the sources. Section 4.1: every stored record, ordered by timestamp descending, no
  filter and no limit. Records with equal timestamps keep their insertion order.
\<close>

definition find_sort_timestamp_desc :: "bool \<Rightarrow> donation list \<Rightarrow> store_error + donation list" where
  "find_sort_timestamp_desc up ds =
     (if up then Inr (sort_key (\<lambda>d. - timestamp d) ds) else Inl StoreError)"

section \<open>The routes\<close>

text \<open>\<^verbatim>\<open>app.get('/')\<close>: the one handler that differs between the two versions. The
  path of the file is relative to the server's directory.\<close>

definition get_root :: "variant \<Rightarrow> response" where
  "get_root v =
     (case v of
        Server_js \<Rightarrow> SendFile ''public/index.html''
      | Part_000 \<Rightarrow> Json 200 (Status_message ''live'' ''Donation API is running!''))"

text \<open>\<^verbatim>\<open>app.post('/api/donations')\<close>: any exception inside the \<^verbatim>\<open>try\<close> ends in the
  \<^verbatim>\<open>catch\<close>.\<close>

definition post_donations :: "config \<Rightarrow> body \<Rightarrow> int \<Rightarrow> bool \<Rightarrow> state \<Rightarrow> state \<times> response" where
  "post_donations c b now up s =
     (case new_Donation c now b of
        Inl e \<Rightarrow> (s, Json 500 (Message ''Error saving donation''))
      | Inr newDonation \<Rightarrow>
          (case save up newDonation (donations s) of
             Inl e \<Rightarrow> (s, Json 500 (Message ''Error saving donation''))
           | Inr ds \<Rightarrow> (s\<lparr>donations := ds\<rparr>, Json 201 (Message ''Donation received''))))"

text \<open>\<^verbatim>\<open>app.post('/api/admin/login')\<close>.\<close>

definition post_admin_login :: "config \<Rightarrow> body \<Rightarrow> string \<Rightarrow> state \<Rightarrow> state \<times> response" where
  "post_admin_login c b uuid s =
     (let password = field b ''password'' in
      if \<not> strict_equals password (ADMIN_PASSWORD c)
      then (s, Json 401 (Message ''Incorrect password''))
      else (s\<lparr>adminSessions := issue uuid (adminSessions s)\<rparr>, Json 200 (Token uuid)))"

text \<open>The handler of \<^verbatim>\<open>app.post('/api/admin/logout')\<close>, behind the gate.\<close>

definition admin_logout :: "string \<Rightarrow> state \<Rightarrow> state \<times> response" where
  "admin_logout adminToken s =
     (s\<lparr>adminSessions := revoke adminToken (adminSessions s)\<rparr>,
      Json 200 (Message ''Logged out successfully''))"

definition post_admin_logout :: "string option \<Rightarrow> state \<Rightarrow> state \<times> response" where
  "post_admin_logout authHeader s = gated authHeader admin_logout s"

text \<open>The handler of \<^verbatim>\<open>app.get('/api/admin/donations')\<close>, behind the gate.\<close>

definition admin_donations :: "bool \<Rightarrow> string \<Rightarrow> state \<Rightarrow> state \<times> response" where
  "admin_donations up adminToken s =
     (case find_sort_timestamp_desc up (donations s) of
        Inl e \<Rightarrow> (s, Json 500 (Message ''Error fetching records''))
      | Inr ds \<Rightarrow> (s, Json 200 (Donations ds)))"

definition get_admin_donations :: "string option \<Rightarrow> bool \<Rightarrow> state \<Rightarrow> state \<times> response" where
  "get_admin_donations authHeader up s = gated authHeader (admin_donations up) s"

text \<open>The router, and the server run on a sequence of requests.\<close>

fun handle :: "config \<Rightarrow> state \<Rightarrow> request \<Rightarrow> state \<times> response" where
  "handle c s GET_root = (s, get_root (variant c))"
| "handle c s (POST_donations b now up) = post_donations c b now up s"
| "handle c s (POST_admin_login b uuid) = post_admin_login c b uuid s"
| "handle c s (POST_admin_logout authHeader) = post_admin_logout authHeader s"
| "handle c s (GET_admin_donations authHeader up) = get_admin_donations authHeader up s"

fun run :: "config \<Rightarrow> state \<Rightarrow> request list \<Rightarrow> state" where
  "run c s [] = s"
| "run c s (r # rs) = run c (fst (handle c s r)) rs"

text \<open>\<open>issues c r t\<close>: request \<open>r\<close> is a login that succeeds and hands out \<open>t\<close>.
  \<open>revokes r t\<close>: request \<open>r\<close> is a logout whose bearer token is \<open>t\<close>.\<close>

fun issues :: "config \<Rightarrow> request \<Rightarrow> string \<Rightarrow> bool" where
  "issues c (POST_admin_login b uuid) t =
     (uuid = t \<and> strict_equals (field b ''password'') (ADMIN_PASSWORD c))"
| "issues c _ t = False"

fun revokes :: "request \<Rightarrow> string \<Rightarrow> bool" where
  "revokes (POST_admin_logout (Some h)) t = (startsWith h ''Bearer '' \<and> bearer_token h = t)"
| "revokes _ t = False"

section \<open>Named inputs\<close>

text \<open>The nine required fields, as the specification lists them.\<close>

definition required_fields :: "string list" where
  "required_fields = [''firstName'', ''lastName'', ''email'', ''address'', ''country'', ''amount'',
     ''cardNumber'', ''cardExpiry'', ''cardCvc'']"

text \<open>The records a response carries, and the test for a liveness reply
  (\<^verbatim>\<open>200 {status: "live", message: ...}\<close>).\<close>

fun listed :: "response \<Rightarrow> donation list" where
  "listed (Json n (Donations ds)) = ds"
| "listed _ = []"

fun is_live_probe :: "response \<Rightarrow> bool" where
  "is_live_probe (Json n (Status_message st m)) = (n = 200 \<and> st = ''live'')"
| "is_live_probe _ = False"

text \<open>Concrete configurations, states and requests, taken from the scenarios of section 8
  of the specification.\<close>

definition demo_config :: "variant \<Rightarrow> config" where
  "demo_config v = \<lparr>variant = v, env_ADMIN_PASSWORD = Some ''secret'', cast_date = (\<lambda>v. None)\<rparr>"

definition unset_config :: config where
  "unset_config = \<lparr>variant = Part_000, env_ADMIN_PASSWORD = None, cast_date = (\<lambda>v. None)\<rparr>"

definition empty_state :: state where
  "empty_state = \<lparr>adminSessions = {}, donations = []\<rparr>"

definition demo_state :: state where
  "demo_state = \<lparr>adminSessions = {''tok-1''}, donations = []\<rparr>"

definition password_body :: "string \<Rightarrow> body" where
  "password_body p = map_of [(''password'', JStr p)]"

definition demo_body :: body where
  "demo_body = map_of [(''firstName'', JStr ''A''), (''lastName'', JStr ''B''),
     (''email'', JStr ''a@b.com''), (''address'', JStr ''X''), (''country'', JStr ''Y''),
     (''amount'', JNum 10), (''cardNumber'', JStr ''4111''), (''cardExpiry'', JStr ''12/30''),
     (''cardCvc'', JStr ''123'')]"

definition demo_donation :: "int \<Rightarrow> donation" where
  "demo_donation t = \<lparr>timestamp = t, firstName = JStr ''A'', lastName = JStr ''B'',
     email = JStr ''a@b.com'', address = JStr ''X'', country = JStr ''Y'', amount = JNum 10,
     cardNumber = JStr ''4111'', cardExpiry = JStr ''12/30'', cardCvc = JStr ''123''\<rparr>"

definition login_secret :: "string \<Rightarrow> request" where
  "login_secret uuid = POST_admin_login (password_body ''secret'') uuid"

definition list_with :: "string \<Rightarrow> request" where
  "list_with tok = GET_admin_donations (Some (''Bearer '' @ tok)) True"

definition logout_with :: "string \<Rightarrow> request" where
  "logout_with tok = POST_admin_logout (Some (''Bearer '' @ tok))"

definition shuffled_state :: state where
  "shuffled_state =
     \<lparr>adminSessions = {''tok-1''}, donations = [demo_donation 3, demo_donation 5, demo_donation 2]\<rparr>"

section \<open>The gate\<close>

lemma gated_401:
  "authHeader = None \<or> (\<exists>h. authHeader = Some h \<and> \<not> startsWith h ''Bearer '') \<Longrightarrow>
   gated authHeader handler s = (s, Json 401 (Message ''Authorization token missing''))"
  by (auto simp: gated_def authenticateAdmin_def)

lemma gated_403:
  "authHeader = Some h \<Longrightarrow> startsWith h ''Bearer '' \<Longrightarrow> bearer_token h \<notin> adminSessions s \<Longrightarrow>
   gated authHeader handler s = (s, Json 403 (Message ''Invalid or expired token''))"
  by (auto simp: gated_def authenticateAdmin_def startsWith_def)

text \<open>
  C1. On both admin routes, a request whose \<^verbatim>\<open>Authorization\<close> header is absent or does
  not start with \<^verbatim>\<open>Bearer \<close> is answered 401 "Authorization token missing"; one whose
  header is well formed but whose extracted token is not in the registry is answered 403
  "Invalid or expired token". In both cases the wrapped handler does not run: the outcome
  is the same for every handler, and the state is the one before the request.
\<close>

theorem gate_rejects_before_handler:
  "((authHeader = None \<or> (\<exists>h. authHeader = Some h \<and> \<not> startsWith h ''Bearer '')) \<longrightarrow>
      gated authHeader handler s = (s, Json 401 (Message ''Authorization token missing'')) \<and>
      handle c s (POST_admin_logout authHeader)
        = (s, Json 401 (Message ''Authorization token missing'')) \<and>
      handle c s (GET_admin_donations authHeader up)
        = (s, Json 401 (Message ''Authorization token missing'')))
   \<and> ((\<exists>h. authHeader = Some h \<and> startsWith h ''Bearer '' \<and>
            \<not> isValid (bearer_token h) (adminSessions s)) \<longrightarrow>
      gated authHeader handler s = (s, Json 403 (Message ''Invalid or expired token'')) \<and>
      handle c s (POST_admin_logout authHeader)
        = (s, Json 403 (Message ''Invalid or expired token'')) \<and>
      handle c s (GET_admin_donations authHeader up)
        = (s, Json 403 (Message ''Invalid or expired token'')))"
  by (auto simp: post_admin_logout_def get_admin_donations_def gated_401 gated_403 isValid_def)

text \<open>The scenario of the specification: no header, a header of another scheme, and a
  bearer token that was never issued.\<close>

theorem gate_rejects_before_handler_witness:
  "handle (demo_config Part_000) demo_state (GET_admin_donations None True)
     = (demo_state, Json 401 (Message ''Authorization token missing''))
   \<and> \<not> startsWith ''Basic tok-1'' ''Bearer ''
   \<and> handle (demo_config Server_js) demo_state (POST_admin_logout (Some ''Basic tok-1''))
     = (demo_state, Json 401 (Message ''Authorization token missing''))
   \<and> startsWith ''Bearer not-a-real-token'' ''Bearer ''
   \<and> \<not> isValid (bearer_token ''Bearer not-a-real-token'') (adminSessions demo_state)
   \<and> handle (demo_config Part_000) demo_state
        (GET_admin_donations (Some ''Bearer not-a-real-token'') True)
     = (demo_state, Json 403 (Message ''Invalid or expired token''))"
  using
    gate_rejects_before_handler [of None admin_logout demo_state "demo_config Part_000" True]
    gate_rejects_before_handler
      [of "Some ''Basic tok-1''" admin_logout demo_state "demo_config Server_js" True]
    gate_rejects_before_handler
      [of "Some ''Bearer not-a-real-token''" admin_logout demo_state "demo_config Part_000" True]
  by (simp add: startsWith_def isValid_def bearer_token_def trim_def isWhiteSpace_def
      demo_state_def)

section \<open>Login\<close>

text \<open>
  C2. A login whose submitted password is strictly equal to the configured admin password
  is answered 200 with the token the generator has just produced, and that token is added
  to the registry; any other login is answered 401 "Incorrect password" and leaves the
  state, the registry included, as it was.
\<close>

theorem login_password_check:
  "(strict_equals (field b ''password'') (ADMIN_PASSWORD c) \<longrightarrow>
      handle c s (POST_admin_login b uuid)
        = (s\<lparr>adminSessions := insert uuid (adminSessions s)\<rparr>, Json 200 (Token uuid)) \<and>
      isValid uuid (adminSessions (fst (handle c s (POST_admin_login b uuid)))))
   \<and> (\<not> strict_equals (field b ''password'') (ADMIN_PASSWORD c) \<longrightarrow>
      handle c s (POST_admin_login b uuid) = (s, Json 401 (Message ''Incorrect password'')))"
  by (simp add: post_admin_login_def issue_def isValid_def)

text \<open>The scenario of the specification: the password "secret" is accepted, "wrong" is not.\<close>

theorem login_password_check_witness:
  "strict_equals (field (password_body ''secret'') ''password'')
     (ADMIN_PASSWORD (demo_config Part_000))
   \<and> handle (demo_config Part_000) demo_state (POST_admin_login (password_body ''secret'') ''tok-2'')
       = (demo_state\<lparr>adminSessions := {''tok-2'', ''tok-1''}\<rparr>, Json 200 (Token ''tok-2''))
   \<and> \<not> strict_equals (field (password_body ''wrong'') ''password'')
       (ADMIN_PASSWORD (demo_config Part_000))
   \<and> handle (demo_config Part_000) demo_state (POST_admin_login (password_body ''wrong'') ''tok-2'')
       = (demo_state, Json 401 (Message ''Incorrect password''))"
  using
    login_password_check [of "password_body ''secret''" "demo_config Part_000" demo_state "''tok-2''"]
    login_password_check [of "password_body ''wrong''" "demo_config Part_000" demo_state "''tok-2''"]
  by (simp add: password_body_def field_def ADMIN_PASSWORD_def demo_config_def demo_state_def)

text \<open>
  C10. When \<^verbatim>\<open>ADMIN_PASSWORD\<close> is not set and the body has no \<^verbatim>\<open>password\<close> property,
  both sides of the comparison are \<^verbatim>\<open>undefined\<close>: the login is answered 200 and its
  token is valid afterwards.
\<close>

theorem login_unset_password:
  "env_ADMIN_PASSWORD c = None \<Longrightarrow> b ''password'' = None \<Longrightarrow>
     handle c s (POST_admin_login b uuid)
       = (s\<lparr>adminSessions := insert uuid (adminSessions s)\<rparr>, Json 200 (Token uuid))
     \<and> isValid uuid (adminSessions (fst (handle c s (POST_admin_login b uuid))))"
  by (simp add: post_admin_login_def issue_def isValid_def field_def ADMIN_PASSWORD_def)

text \<open>An empty body sent to a server with no configured password.\<close>

theorem login_unset_password_witness:
  "env_ADMIN_PASSWORD unset_config = None \<and> (Map.empty :: body) ''password'' = None
   \<and> handle unset_config demo_state (POST_admin_login Map.empty ''tok-2'')
       = (demo_state\<lparr>adminSessions := {''tok-2'', ''tok-1''}\<rparr>, Json 200 (Token ''tok-2''))
   \<and> isValid ''tok-2''
       (adminSessions (fst (handle unset_config demo_state (POST_admin_login Map.empty ''tok-2''))))"
  using login_unset_password [of unset_config Map.empty demo_state "''tok-2''"]
  by (simp add: unset_config_def demo_state_def isValid_def)

section \<open>The session registry over time\<close>

lemma handle_issues: "issues c r t \<Longrightarrow> t \<in> adminSessions (fst (handle c s r))"
  by (cases r) (auto simp: post_admin_login_def issue_def)

lemma handle_revokes: "revokes r t \<Longrightarrow> t \<notin> adminSessions (fst (handle c s r))"
proof (cases r)
  case (POST_admin_logout authHeader)
  assume "revokes r t"
  with POST_admin_logout show ?thesis
    by (cases authHeader)
      (auto simp: post_admin_logout_def gated_def authenticateAdmin_def admin_logout_def
        revoke_def startsWith_def)
qed simp_all

text \<open>A request that is not a logout with token \<open>t\<close> leaves \<open>t\<close> in the registry.\<close>

lemma handle_keeps_token:
  assumes "t \<in> adminSessions s" and "\<not> revokes r t"
  shows "t \<in> adminSessions (fst (handle c s r))"
proof (cases r)
  case (POST_admin_logout authHeader)
  with assms show ?thesis
    by (auto simp: post_admin_logout_def gated_def authenticateAdmin_def admin_logout_def
        revoke_def split: option.splits if_splits)
next
  case (POST_admin_login b uuid)
  with assms show ?thesis
    by (simp add: post_admin_login_def issue_def Let_def)
next
  case (POST_donations b now up)
  with assms show ?thesis
    by (simp add: post_donations_def split: sum.splits)
next
  case (GET_admin_donations authHeader up)
  with assms show ?thesis
    by (simp add: get_admin_donations_def gated_def admin_donations_def split: sum.splits)
next
  case GET_root
  with assms show ?thesis by simp
qed

text \<open>A request that is not a successful login handing out \<open>t\<close> does not put \<open>t\<close> into
  the registry.\<close>

lemma handle_issues_only:
  assumes "t \<notin> adminSessions s" and "\<not> issues c r t"
  shows "t \<notin> adminSessions (fst (handle c s r))"
proof (cases r)
  case (POST_admin_logout authHeader)
  with assms show ?thesis
    by (simp add: post_admin_logout_def gated_def admin_logout_def revoke_def split: sum.splits)
next
  case (POST_admin_login b uuid)
  with assms show ?thesis
    by (auto simp: post_admin_login_def issue_def Let_def)
next
  case (POST_donations b now up)
  with assms show ?thesis
    by (simp add: post_donations_def split: sum.splits)
next
  case (GET_admin_donations authHeader up)
  with assms show ?thesis
    by (simp add: get_admin_donations_def gated_def admin_donations_def split: sum.splits)
next
  case GET_root
  with assms show ?thesis by simp
qed

lemma run_keeps_token:
  "t \<in> adminSessions s \<Longrightarrow> \<forall>r \<in> set rs. \<not> revokes r t \<Longrightarrow> t \<in> adminSessions (run c s rs)"
proof (induction rs arbitrary: s)
  case Nil
  then show ?case by simp
next
  case (Cons r rs)
  from Cons.prems have "t \<in> adminSessions (fst (handle c s r))"
    by (simp add: handle_keeps_token del: handle.simps)
  with Cons.prems Cons.IH show ?case by simp
qed

lemma run_issues_only:
  "t \<notin> adminSessions s \<Longrightarrow> \<forall>r \<in> set rs. \<not> issues c r t \<Longrightarrow> t \<notin> adminSessions (run c s rs)"
proof (induction rs arbitrary: s)
  case Nil
  then show ?case by simp
next
  case (Cons r rs)
  from Cons.prems have "t \<notin> adminSessions (fst (handle c s r))"
    by (simp add: handle_issues_only del: handle.simps)
  with Cons.prems Cons.IH show ?case by simp
qed

text \<open>
  C3. A token \<open>t\<close> handed out by a successful login is valid right after it, and stays
  valid over every sequence of requests that holds no logout with bearer token \<open>t\<close>. A
  logout with bearer token \<open>t\<close> leaves \<open>t\<close> invalid, and \<open>t\<close> stays invalid over every
  sequence of requests in which no login hands \<open>t\<close> out again; in each state so reached
  both admin routes answer a request bearing \<open>t\<close> with 403.
\<close>

theorem token_valid_until_revoked:
  "(issues c r t \<longrightarrow> isValid t (adminSessions (fst (handle c s r))))
   \<and> (isValid t (adminSessions s) \<and> (\<forall>r \<in> set rs. \<not> revokes r t) \<longrightarrow>
        isValid t (adminSessions (run c s rs)))
   \<and> (revokes r t \<longrightarrow> \<not> isValid t (adminSessions (fst (handle c s r))))
   \<and> (\<not> isValid t (adminSessions s) \<and> (\<forall>r \<in> set rs. \<not> issues c r t) \<longrightarrow>
        \<not> isValid t (adminSessions (run c s rs)) \<and>
        (startsWith h ''Bearer '' \<and> bearer_token h = t \<longrightarrow>
           handle c (run c s rs) (GET_admin_donations (Some h) up)
             = (run c s rs, Json 403 (Message ''Invalid or expired token'')) \<and>
           handle c (run c s rs) (POST_admin_logout (Some h))
             = (run c s rs, Json 403 (Message ''Invalid or expired token''))))"
proof -
  have "handle c (run c s rs) (GET_admin_donations (Some h) up)
          = (run c s rs, Json 403 (Message ''Invalid or expired token'')) \<and>
        handle c (run c s rs) (POST_admin_logout (Some h))
          = (run c s rs, Json 403 (Message ''Invalid or expired token''))"
    if "t \<notin> adminSessions (run c s rs)" and "startsWith h ''Bearer ''" and "bearer_token h = t"
    using that by (simp add: get_admin_donations_def post_admin_logout_def gated_403)
  then show ?thesis
    unfolding isValid_def
    using handle_issues handle_revokes run_keeps_token run_issues_only by blast
qed

text \<open>A login hands out "tok-1"; it survives a donation, a listing, the logout of another
  token and a probe; its own logout removes it; and where only "tok-2" has been issued a
  listing with "tok-1" is answered 403.\<close>

theorem token_valid_until_revoked_witness:
  "issues (demo_config Part_000) (login_secret ''tok-1'') ''tok-1''
   \<and> isValid ''tok-1''
       (adminSessions (fst (handle (demo_config Part_000) empty_state (login_secret ''tok-1''))))
   \<and> isValid ''tok-1'' (adminSessions (run (demo_config Part_000) demo_state
        [POST_donations demo_body 1700000000000 True, list_with ''tok-1'', logout_with ''tok-2'',
         GET_root]))
   \<and> revokes (logout_with ''tok-1'') ''tok-1''
   \<and> \<not> isValid ''tok-1''
       (adminSessions (fst (handle (demo_config Part_000) demo_state (logout_with ''tok-1''))))
   \<and> handle (demo_config Part_000) (run (demo_config Part_000) empty_state [login_secret ''tok-2''])
        (GET_admin_donations (Some ''Bearer tok-1'') True)
      = (run (demo_config Part_000) empty_state [login_secret ''tok-2''],
         Json 403 (Message ''Invalid or expired token''))"
  using
    token_valid_until_revoked [of "demo_config Part_000" "login_secret ''tok-1''" "''tok-1''"
      empty_state "[]" "''Bearer tok-1''" True]
    token_valid_until_revoked [of "demo_config Part_000" "logout_with ''tok-1''" "''tok-1''"
      demo_state
      "[POST_donations demo_body 1700000000000 True, list_with ''tok-1'', logout_with ''tok-2'',
        GET_root]"
      "''Bearer tok-1''" True]
    token_valid_until_revoked [of "demo_config Part_000" "logout_with ''tok-1''" "''tok-1''"
      empty_state "[login_secret ''tok-2'']" "''Bearer tok-1''" True]
  by (simp add: login_secret_def password_body_def field_def ADMIN_PASSWORD_def demo_config_def
      logout_with_def list_with_def startsWith_def bearer_token_def trim_def isWhiteSpace_def
      isValid_def demo_state_def empty_state_def)

text \<open>
  C4. Revoking a token that is not in the registry leaves the registry as it is and is
  no error (the logout handler still answers 200); revoking twice gives the registry that
  revoking once gives, for the registry operation, for the handler, and for the route
  behind its gate.
\<close>

theorem revoke_idempotent:
  "(\<not> isValid t S \<longrightarrow> revoke t S = S)
   \<and> revoke t (revoke t S) = revoke t S
   \<and> (\<not> isValid t (adminSessions s) \<longrightarrow>
        admin_logout t s = (s, Json 200 (Message ''Logged out successfully'')))
   \<and> fst (admin_logout t (fst (admin_logout t s))) = fst (admin_logout t s)
   \<and> fst (handle c (fst (handle c s (POST_admin_logout h))) (POST_admin_logout h))
        = fst (handle c s (POST_admin_logout h))"
  by (auto simp: revoke_def isValid_def admin_logout_def post_admin_logout_def gated_def
      authenticateAdmin_def split: option.splits sum.splits if_splits)

text \<open>Revoking a token that was never issued, and revoking "tok-1" twice.\<close>

theorem revoke_idempotent_witness:
  "\<not> isValid ''gone'' {''tok-1''} \<and> revoke ''gone'' {''tok-1''} = {''tok-1''}
   \<and> revoke ''tok-1'' (revoke ''tok-1'' {''tok-1''}) = {}
   \<and> \<not> isValid ''gone'' (adminSessions demo_state)
   \<and> admin_logout ''gone'' demo_state
       = (demo_state, Json 200 (Message ''Logged out successfully''))"
  using revoke_idempotent [of "''gone''" "{''tok-1''}" demo_state]
    revoke_idempotent [of "''tok-1''" "{''tok-1''}" demo_state]
  by (simp add: isValid_def revoke_def demo_state_def)

section \<open>Donations\<close>

lemma required_paths_donationSchema: "required_paths (donationSchema v) = required_fields"
  by (simp add: required_paths_def donationSchema_def typed_def required_fields_def)

lemma missing_paths_nonempty:
  assumes "p \<in> set (required_paths sch)" and "b p = None"
  shows "missing_paths sch b \<noteq> []"
proof -
  from assms have "p \<in> set (missing_paths sch b)"
    by (simp add: missing_paths_def field_def)
  then show ?thesis by auto
qed

text \<open>
  C5. A donation payload that lacks one of the nine required fields is answered 500
  "Error saving donation", and the state, the stored collection included, is the one
  before the request.
\<close>

theorem missing_field_rejected:
  assumes "p \<in> set required_fields" and "b p = None"
  shows "handle c s (POST_donations b now up) = (s, Json 500 (Message ''Error saving donation''))"
proof -
  from assms(1) have "p \<in> set (required_paths (donationSchema (variant c)))"
    by (simp only: required_paths_donationSchema)
  then have "missing_paths (donationSchema (variant c)) b \<noteq> []"
    using assms(2) by (rule missing_paths_nonempty)
  then show ?thesis
    by (simp add: post_donations_def new_Donation_def)
qed

text \<open>The payload of the specification's scenario without its \<^verbatim>\<open>cardCvc\<close>, and an empty
  payload.\<close>

theorem missing_field_rejected_witness:
  "''cardCvc'' \<in> set required_fields \<and> (demo_body(''cardCvc'' := None)) ''cardCvc'' = None
   \<and> handle (demo_config Part_000) demo_state
        (POST_donations (demo_body(''cardCvc'' := None)) 1700000000000 True)
       = (demo_state, Json 500 (Message ''Error saving donation''))
   \<and> handle (demo_config Server_js) demo_state (POST_donations Map.empty 1700000000000 True)
       = (demo_state, Json 500 (Message ''Error saving donation''))"
  using
    missing_field_rejected [of "''cardCvc''" "demo_body(''cardCvc'' := None)"
      "demo_config Part_000" demo_state 1700000000000 True]
    missing_field_rejected [of "''cardCvc''" Map.empty "demo_config Server_js" demo_state
      1700000000000 True]
  by (simp add: required_fields_def)

lemma sorted_desc_sort_key:
  fixes ds :: "donation list"
  shows "sorted_wrt (\<lambda>a b. timestamp b \<le> timestamp a) (sort_key (\<lambda>d. - timestamp d) ds)"
proof -
  have "sorted (map (\<lambda>d. - timestamp d) (sort_key (\<lambda>d. - timestamp d) ds))"
    by (rule sorted_sort_key)
  then show ?thesis
    by (simp add: sorted_wrt_map)
qed

lemma sorted_same_mset:
  fixes xs ys :: "int list"
  assumes "mset ys = mset xs" and "sorted ys" and "sorted xs"
  shows "ys = xs"
proof -
  have "sort xs = ys" using assms(1,2) by (rule properties_for_sort)
  moreover have "sort xs = xs" using assms(3) by (rule sorted_sort_id)
  ultimately show ?thesis by simp
qed

text \<open>The timestamps of the listing depend on the stored records only, not on the order
  they were inserted in.\<close>

lemma sort_key_timestamps:
  fixes ds ds' :: "donation list"
  assumes "mset ds' = mset ds"
  shows "map timestamp (sort_key (\<lambda>d. - timestamp d) ds')
           = map timestamp (sort_key (\<lambda>d. - timestamp d) ds)"
proof -
  let ?f = "\<lambda>d::donation. - timestamp d"
  have "mset (map ?f (sort_key ?f ds')) = mset (map ?f (sort_key ?f ds))"
    using assms by simp
  moreover have "sorted (map ?f (sort_key ?f ds'))" and "sorted (map ?f (sort_key ?f ds))"
    by (rule sorted_sort_key)+
  ultimately have "map ?f (sort_key ?f ds') = map ?f (sort_key ?f ds)"
    by (rule sorted_same_mset)
  then have "map uminus (map ?f (sort_key ?f ds')) = map uminus (map ?f (sort_key ?f ds))"
    by (rule arg_cong)
  then show ?thesis by (simp add: comp_def)
qed

lemma list_route_passed:
  assumes "authenticateAdmin authHeader (adminSessions s) = Inr token"
  shows "handle c s (GET_admin_donations authHeader True)
           = (s, Json 200 (Donations (sort_key (\<lambda>d. - timestamp d) (donations s))))"
  using assms
  by (simp add: get_admin_donations_def gated_def admin_donations_def find_sort_timestamp_desc_def)

text \<open>
  C6. When the gate lets a listing request through and the store answers, the response
  is 200 with a list that holds exactly the stored records (each as often as it is stored,
  none left out), ordered by timestamp descending. A collection holding the same records
  in another insertion order gives the same sequence of timestamps.
\<close>

theorem listAll_sorted_desc:
  assumes "authenticateAdmin authHeader (adminSessions s) = Inr token"
  shows "handle c s (GET_admin_donations authHeader True)
           = (s, Json 200 (Donations (listed (snd (handle c s (GET_admin_donations authHeader True))))))
     \<and> mset (listed (snd (handle c s (GET_admin_donations authHeader True)))) = mset (donations s)
     \<and> sorted_wrt (\<lambda>a b. timestamp b \<le> timestamp a)
          (listed (snd (handle c s (GET_admin_donations authHeader True))))
     \<and> (mset (donations s') = mset (donations s) \<and> adminSessions s' = adminSessions s \<longrightarrow>
          map timestamp (listed (snd (handle c s' (GET_admin_donations authHeader True))))
            = map timestamp (listed (snd (handle c s (GET_admin_donations authHeader True)))))"
proof -
  let ?sorted = "\<lambda>ds::donation list. sort_key (\<lambda>d. - timestamp d) ds"
  have here: "handle c s (GET_admin_donations authHeader True)
      = (s, Json 200 (Donations (?sorted (donations s))))"
    using assms by (rule list_route_passed)
  have there: "map timestamp (listed (snd (handle c s' (GET_admin_donations authHeader True))))
      = map timestamp (?sorted (donations s))"
    if "mset (donations s') = mset (donations s)" and "adminSessions s' = adminSessions s"
  proof -
    from that(2) assms have "authenticateAdmin authHeader (adminSessions s') = Inr token"
      by simp
    then have "handle c s' (GET_admin_donations authHeader True)
        = (s', Json 200 (Donations (?sorted (donations s'))))"
      by (rule list_route_passed)
    then show ?thesis
      using sort_key_timestamps [OF that(1)] by (simp del: handle.simps)
  qed
  show ?thesis
    using there by (simp add: here sorted_desc_sort_key del: handle.simps)
qed

text \<open>Three records stored out of chronological order (3, 5, 2) come back as 5, 3, 2, and
  so do the same records stored in the order 2, 3, 5.\<close>

theorem listAll_sorted_desc_witness:
  "authenticateAdmin (Some ''Bearer tok-1'') (adminSessions shuffled_state) = Inr ''tok-1''
   \<and> handle (demo_config Part_000) shuffled_state (GET_admin_donations (Some ''Bearer tok-1'') True)
       = (shuffled_state, Json 200 (Donations [demo_donation 5, demo_donation 3, demo_donation 2]))
   \<and> map timestamp (listed (snd (handle (demo_config Part_000)
        (shuffled_state\<lparr>donations := [demo_donation 2, demo_donation 3, demo_donation 5]\<rparr>)
        (GET_admin_donations (Some ''Bearer tok-1'') True)))) = [5, 3, 2]"
  using listAll_sorted_desc [of "Some ''Bearer tok-1''" shuffled_state "''tok-1''"
      "demo_config Part_000"
      "shuffled_state\<lparr>donations := [demo_donation 2, demo_donation 3, demo_donation 5]\<rparr>"]
  by (simp add: authenticateAdmin_def startsWith_def bearer_token_def trim_def isWhiteSpace_def
      shuffled_state_def get_admin_donations_def gated_def admin_donations_def
      find_sort_timestamp_desc_def demo_donation_def)

lemma handle_keeps_donations: "prefix (donations s) (donations (fst (handle c s r)))"
  by (cases r)
    (auto simp: post_donations_def save_def post_admin_login_def post_admin_logout_def
      get_admin_donations_def gated_def admin_logout_def admin_donations_def Let_def
      split: sum.splits if_splits)

lemma run_keeps_donations: "prefix (donations s) (donations (run c s rs))"
proof (induction rs arbitrary: s)
  case Nil
  show ?case by simp
next
  case (Cons r rs)
  have "prefix (donations s) (donations (fst (handle c s r)))"
    by (rule handle_keeps_donations)
  also have "prefix (donations (fst (handle c s r))) (donations (run c (fst (handle c s r)) rs))"
    by (rule Cons.IH)
  finally show ?case by simp
qed

text \<open>
  C9. The stored collection only grows at its end: after any one request, and after any
  sequence of requests to the five routes, the collection before is a prefix of the
  collection after, so every record persisted earlier is still there, in its place and
  unchanged.
\<close>

theorem donations_append_only:
  "prefix (donations s) (donations (fst (handle c s r)))
   \<and> prefix (donations s) (donations (run c s rs))"
  by (simp add: handle_keeps_donations run_keeps_donations del: handle.simps)

text \<open>One stored record, then a donation, a logout, a listing and a probe.\<close>

theorem donations_append_only_witness:
  "prefix (donations (demo_state\<lparr>donations := [demo_donation 5]\<rparr>))
     (donations (run (demo_config Part_000) (demo_state\<lparr>donations := [demo_donation 5]\<rparr>)
        [POST_donations demo_body 7 True, logout_with ''tok-1'', list_with ''tok-1'', GET_root]))
   \<and> donations (run (demo_config Part_000) (demo_state\<lparr>donations := [demo_donation 5]\<rparr>)
        [POST_donations demo_body 7 True, logout_with ''tok-1'', list_with ''tok-1'', GET_root])
      = [demo_donation 5, demo_donation 7]"
  using donations_append_only [of "demo_state\<lparr>donations := [demo_donation 5]\<rparr>"
      "demo_config Part_000" GET_root
      "[POST_donations demo_body 7 True, logout_with ''tok-1'', list_with ''tok-1'', GET_root]"]
  by (simp add: post_donations_def new_Donation_def missing_paths_def required_paths_def
      donationSchema_def typed_def demo_body_def timestamp_value_def save_def demo_state_def
      demo_donation_def field_def logout_with_def list_with_def post_admin_logout_def
      get_admin_donations_def gated_def authenticateAdmin_def startsWith_def bearer_token_def
      trim_def isWhiteSpace_def admin_logout_def revoke_def get_root_def)

section \<open>The schema's card fields\<close>

text \<open>
  C8. The declared options of \<^verbatim>\<open>cardNumber\<close>, \<^verbatim>\<open>cardExpiry\<close> and \<^verbatim>\<open>cardCvc\<close> in the
  two versions. All are required. In \<^verbatim>\<open>server.js\<close> all three have type \<^verbatim>\<open>String\<close>; in
  the API-only version \<^verbatim>\<open>cardCvc\<close> has the literal \<^verbatim>\<open>true\<close> where the other two have
  \<^verbatim>\<open>String\<close>.
\<close>

theorem cardCvc_declared_type:
  "map (map_of (donationSchema Server_js)) [''cardNumber'', ''cardExpiry'', ''cardCvc'']
     = [Some (typed String_type), Some (typed String_type), Some (typed String_type)]
   \<and> map (map_of (donationSchema Part_000)) [''cardNumber'', ''cardExpiry'', ''cardCvc'']
     = [Some (typed String_type), Some (typed String_type), Some (typed Literal_true)]
   \<and> typed Literal_true \<noteq> typed String_type"
  by (simp add: donationSchema_def typed_def)

section \<open>The root route\<close>

text \<open>
  C7. The API-only version answers \<^verbatim>\<open>GET /\<close> with 200 and the body
  \<^verbatim>\<open>{status: "live", message: "Donation API is running!"}\<close>; \<^verbatim>\<open>server.js\<close> answers it by
  sending the file \<^verbatim>\<open>public/index.html\<close>. Neither consults the registry, and the state is
  left as it was.
\<close>

theorem root_route_by_variant:
  "(variant c = Part_000 \<longrightarrow>
      handle c s GET_root = (s, Json 200 (Status_message ''live'' ''Donation API is running!'')))
   \<and> (variant c = Server_js \<longrightarrow> handle c s GET_root = (s, SendFile ''public/index.html''))"
  by (simp add: get_root_def)

text \<open>Both versions at a concrete state.\<close>

theorem root_route_by_variant_witness:
  "variant (demo_config Part_000) = Part_000
   \<and> handle (demo_config Part_000) empty_state GET_root
       = (empty_state, Json 200 (Status_message ''live'' ''Donation API is running!''))
   \<and> variant (demo_config Server_js) = Server_js
   \<and> handle (demo_config Server_js) empty_state GET_root
       = (empty_state, SendFile ''public/index.html'')"
  using root_route_by_variant [of "demo_config Part_000" empty_state]
    root_route_by_variant [of "demo_config Server_js" empty_state]
  by (simp add: demo_config_def)

text \<open>The root route of \<^verbatim>\<open>server.js\<close> does not give a liveness reply.\<close>

theorem root_route_server_js_not_live:
  "\<not> is_live_probe (snd (handle (demo_config Server_js) empty_state GET_root))"
  by (simp add: get_root_def demo_config_def)

end
